theory Spec2Isabelle
  imports Complex_Main
begin

section \<open>The type model of \<^verbatim>\<open>src/type-inspector.ts\<close>\<close>

text \<open>
  The tag of a \<^verbatim>\<open>Primitive\<close> node is one of seven string literals. \<open>tag_name\<close> gives the
  string itself, which is what \<^verbatim>\<open>typeof literalValue === primitiveType\<close> compares.
\<close>

datatype PrimitiveTag = TString | TNumber | TBoolean | TBigint | TSymbol | TUndefined | TNull

fun tag_name :: "PrimitiveTag \<Rightarrow> string" where
  "tag_name TString = ''string''"
| "tag_name TNumber = ''number''"
| "tag_name TBoolean = ''boolean''"
| "tag_name TBigint = ''bigint''"
| "tag_name TSymbol = ''symbol''"
| "tag_name TUndefined = ''undefined''"
| "tag_name TNull = ''null''"

text \<open>
  A JavaScript number. The modelled functions only compare numbers with \<^verbatim>\<open>===\<close> and take
  their \<^verbatim>\<open>typeof\<close>, so all that matters is which numbers are equal to which: \<open>NaN\<close> is
  the one number that is not \<^verbatim>\<open>===\<close> to itself, the two zeros are \<^verbatim>\<open>===\<close> to each other
  (both are \<open>Finite 0\<close>), and every other number is equal to itself only.
\<close>

datatype JSNumber = NaN | Infinity | NegInfinity | Finite rat

datatype LiteralValue = StringValue string | NumberValue JSNumber | BooleanValue bool

datatype EnumValue = EnumString string | EnumNumber JSNumber

text \<open>
  \<^verbatim>\<open>TypeInfo\<close>: one constructor for each value of \<^verbatim>\<open>kind\<close>, the fields in the order of the
  TypeScript declaration. A \<^verbatim>\<open>Record<string, T>\<close> is an association list in the order
  in which \<^verbatim>\<open>Object.keys\<close> enumerates it; \<open>map_of\<close> reads a property. The selectors have the
  names of the fields, but for \<^verbatim>\<open>type\<close> (\<open>type_name\<close>, \<open>prim_type\<close>), \<^verbatim>\<open>key\<close> and \<^verbatim>\<open>value\<close> of a Map
  or Record (\<open>map_key\<close>, \<open>map_value\<close>), \<^verbatim>\<open>value\<close> of a Literal (\<open>literal_value\<close>), \<^verbatim>\<open>values\<close> of an
  Enum (\<open>enum_values\<close>) and \<^verbatim>\<open>constructor\<close> of a Class (\<open>constructorType\<close>); the kind \<^verbatim>\<open>Union\<close>
  is the constructor \<open>UnionT\<close>.
\<close>

datatype TypeInfo =
    Simple (type_name: string)
  | Primitive (prim_type: PrimitiveTag)
  | Array (inner: TypeInfo)
  | ReadonlyArray (inner: TypeInfo)
  | Set (inner: TypeInfo)
  | Promise (inner: TypeInfo)
  | PromiseLike (inner: TypeInfo)
  | Observable (inner: TypeInfo)
  | Map (map_key: TypeInfo) (map_value: TypeInfo)
  | Record (map_key: TypeInfo) (map_value: TypeInfo)
  | UnionT (types: "TypeInfo list")
  | Intersection (types: "TypeInfo list")
  | Optional (inner: TypeInfo)
  | Nullable (inner: TypeInfo)
  | Function (parameters: "TypeInfo list") (returnType: TypeInfo)
  | Class (name: string) (constructorType: TypeInfo) (methods: "(string \<times> TypeInfo) list")
      (properties: "(string \<times> TypeInfo) list")
  | Interface (name: string) (properties: "(string \<times> TypeInfo) list")
  | Generic (name: string) (typeParameters: "TypeInfo list")
  | Literal (literal_value: LiteralValue)
  | Enum (name: string) (enum_values: "(string \<times> EnumValue) list")
  | Tuple (elements: "TypeInfo list")
  | Object (properties: "(string \<times> TypeInfo) list")
  | IndexSignature (keyType: TypeInfo) (valueType: TypeInfo)
  | Conditional (checkType: TypeInfo) (extendsType: TypeInfo) (trueType: TypeInfo)
      (falseType: TypeInfo)
  | Mapped (keyType: TypeInfo) (valueType: TypeInfo)
  | TemplateLiteral (parts: "string list") (types: "TypeInfo list")
  | Unknown

datatype Kind =
    KSimple | KPrimitive | KArray | KReadonlyArray | KSet | KPromise | KPromiseLike
  | KObservable | KMap | KRecord | KUnion | KIntersection | KOptional | KNullable
  | KFunction | KClass | KInterface | KGeneric | KLiteral | KEnum | KTuple | KObject
  | KIndexSignature | KConditional | KMapped | KTemplateLiteral | KUnknown

fun kind :: "TypeInfo \<Rightarrow> Kind" where
  "kind (Simple _) = KSimple"
| "kind (Primitive _) = KPrimitive"
| "kind (Array _) = KArray"
| "kind (ReadonlyArray _) = KReadonlyArray"
| "kind (Set _) = KSet"
| "kind (Promise _) = KPromise"
| "kind (PromiseLike _) = KPromiseLike"
| "kind (Observable _) = KObservable"
| "kind (Map _ _) = KMap"
| "kind (Record _ _) = KRecord"
| "kind (UnionT _) = KUnion"
| "kind (Intersection _) = KIntersection"
| "kind (Optional _) = KOptional"
| "kind (Nullable _) = KNullable"
| "kind (Function _ _) = KFunction"
| "kind (Class _ _ _ _) = KClass"
| "kind (Interface _ _) = KInterface"
| "kind (Generic _ _) = KGeneric"
| "kind (Literal _) = KLiteral"
| "kind (Enum _ _) = KEnum"
| "kind (Tuple _) = KTuple"
| "kind (Object _) = KObject"
| "kind (IndexSignature _ _) = KIndexSignature"
| "kind (Conditional _ _ _ _) = KConditional"
| "kind (Mapped _ _) = KMapped"
| "kind (TemplateLiteral _ _) = KTemplateLiteral"
| "kind Unknown = KUnknown"

text \<open>
  \<^verbatim>\<open>xs[i]\<close> on a JavaScript array: \<^verbatim>\<open>undefined\<close> when the index is out of range, also
  for the index \<open>-1\<close> that \<^verbatim>\<open>types[types.length - 1]\<close> computes on an empty array.
\<close>

definition js_index :: "'a list \<Rightarrow> int \<Rightarrow> 'a option" where
  "js_index xs i = (if 0 \<le> i \<and> i < int (length xs) then Some (xs ! nat i) else None)"

text \<open>The measure of the recursive walks: an absent node has size 0.\<close>

fun node_size :: "TypeInfo option \<Rightarrow> nat" where
  "node_size None = 0"
| "node_size (Some t) = Suc (size t)"

lemma size_member: "x \<in> set xs \<Longrightarrow> size x < size_list size xs"
  by (induction xs) auto

lemma node_size_js_index: "node_size (js_index xs i) \<le> size_list size xs"
  unfolding js_index_def using size_member [of "xs ! nat i" xs]
  by (auto simp: Suc_le_eq)

lemma find_member: "find P xs = Some x \<Longrightarrow> x \<in> set xs"
  by (induction xs) (auto split: if_splits)

section \<open>Deep resolution\<close>

text \<open>
  \<^verbatim>\<open>resolveDeepestType(typeInfo?)\<close>, lines 65 to 114. \<open>None\<close> is \<^verbatim>\<open>undefined\<close>, both as
  the argument and as the result.
\<close>

function (sequential) resolveDeepestType :: "TypeInfo option \<Rightarrow> TypeInfo option" where
  "resolveDeepestType None = None"
| "resolveDeepestType (Some (Promise t)) = resolveDeepestType (Some t)"
| "resolveDeepestType (Some (PromiseLike t)) = resolveDeepestType (Some t)"
| "resolveDeepestType (Some (Array t)) = resolveDeepestType (Some t)"
| "resolveDeepestType (Some (ReadonlyArray t)) = resolveDeepestType (Some t)"
| "resolveDeepestType (Some (Set t)) = resolveDeepestType (Some t)"
| "resolveDeepestType (Some (Observable t)) = resolveDeepestType (Some t)"
| "resolveDeepestType (Some (Map k v)) = resolveDeepestType (Some v)"
| "resolveDeepestType (Some (Record k v)) = resolveDeepestType (Some v)"
| "resolveDeepestType (Some (Optional t)) = resolveDeepestType (Some t)"
| "resolveDeepestType (Some (Nullable t)) = resolveDeepestType (Some t)"
| "resolveDeepestType (Some (UnionT ts)) =
     (case find (\<lambda>t. kind t \<noteq> KUnknown) ts of
        Some nonUnknownType \<Rightarrow> resolveDeepestType (Some nonUnknownType)
      | None \<Rightarrow> js_index ts 0)"
| "resolveDeepestType (Some (Intersection ts)) =
     resolveDeepestType (js_index ts (int (length ts) - 1))"
| "resolveDeepestType (Some (Function ps r)) = resolveDeepestType (Some r)"
| "resolveDeepestType (Some (Class n c ms ps)) = Some (Class n c ms ps)"
| "resolveDeepestType (Some (Interface n ps)) = Some (Interface n ps)"
| "resolveDeepestType (Some (Object ps)) = Some (Object ps)"
| "resolveDeepestType (Some (Generic n ps)) = resolveDeepestType (js_index ps 0)"
| "resolveDeepestType (Some (Tuple es)) = resolveDeepestType (js_index es 0)"
| "resolveDeepestType (Some (Conditional c e t f)) = resolveDeepestType (Some t)"
| "resolveDeepestType (Some (Mapped k v)) = resolveDeepestType (Some v)"
| "resolveDeepestType (Some (TemplateLiteral ps ts)) = resolveDeepestType (js_index ts 0)"
| "resolveDeepestType (Some t) = Some t"
  by pat_completeness auto

termination
proof (relation "measure node_size")
  show "wf (measure node_size)" by simp
qed (auto simp: less_Suc_eq_le node_size_js_index le_SucI dest!: find_member size_member)

text \<open>
  The terminal kinds, where \<^verbatim>\<open>resolveDeepestType\<close> answers \<^verbatim>\<open>return typeInfo\<close>.
\<close>

definition terminal :: "TypeInfo \<Rightarrow> bool" where
  "terminal t = (kind t \<in> {KSimple, KPrimitive, KLiteral, KEnum, KIndexSignature, KClass,
     KInterface, KObject, KUnknown})"

section \<open>Assignability\<close>

text \<open>
  \<^verbatim>\<open>v === w\<close> on literal values: values of different types are never equal, and \<open>NaN\<close>
  is not equal to itself.
\<close>

definition strict_eq :: "LiteralValue \<Rightarrow> LiteralValue \<Rightarrow> bool" where
  "strict_eq v w = (v = w \<and> v \<noteq> NumberValue NaN)"

fun typeof :: "LiteralValue \<Rightarrow> string" where
  "typeof (StringValue _) = ''string''"
| "typeof (NumberValue _) = ''number''"
| "typeof (BooleanValue _) = ''boolean''"

lemma size_property:
  "map_of ps k = Some t \<Longrightarrow> size t < size_list (size_prod (\<lambda>_. 0) size) ps"
  by (induction ps) (auto split: if_splits)

lemma node_size_property:
  "node_size (map_of ps k) \<le> size_list (size_prod (\<lambda>_. 0) size) ps"
  using size_property [of ps k] by (cases "map_of ps k") (auto simp: Suc_le_eq)

lemma size_by_kind:
  "kind t = KArray \<Longrightarrow> size t = Suc (size (inner t))"
  "kind t = KReadonlyArray \<Longrightarrow> size t = Suc (size (inner t))"
  "kind t = KSet \<Longrightarrow> size t = Suc (size (inner t))"
  "kind t = KPromise \<Longrightarrow> size t = Suc (size (inner t))"
  "kind t = KPromiseLike \<Longrightarrow> size t = Suc (size (inner t))"
  "kind t = KOptional \<Longrightarrow> size t = Suc (size (inner t))"
  "kind t = KNullable \<Longrightarrow> size t = Suc (size (inner t))"
  "kind t = KMap \<Longrightarrow> size t = Suc (size (map_key t) + size (map_value t))"
  "kind t = KRecord \<Longrightarrow> size t = Suc (size (map_key t) + size (map_value t))"
  "kind t = KUnion \<Longrightarrow> size t = Suc (size_list size (types t))"
  "kind t = KIntersection \<Longrightarrow> size t = Suc (size_list size (types t))"
  "kind t = KFunction \<Longrightarrow> size t = Suc (size_list size (parameters t) + size (returnType t))"
  "kind t = KTuple \<Longrightarrow> size t = Suc (size_list size (elements t))"
  "kind t = KObject \<Longrightarrow> size t = Suc (size_list (size_prod (\<lambda>_. 0) size) (properties t))"
  by (cases t; simp)+

text \<open>The measure of \<^verbatim>\<open>isAssignableTo\<close> and \<^verbatim>\<open>areParametersCompatible\<close>: every recursive call is on
  nodes of smaller total size.\<close>

definition call_size ::
  "TypeInfo option \<times> TypeInfo option + TypeInfo list \<times> TypeInfo list \<Rightarrow> nat" where
  "call_size c = (case c of
      Inl (a, b) \<Rightarrow> node_size a + node_size b
    | Inr (ps1, ps2) \<Rightarrow> Suc (size_list size ps1 + size_list size ps2))"

text \<open>
  \<^verbatim>\<open>isAssignableTo(typeInfo1?, typeInfo2?)\<close>, lines 424 to 516, and the private
  \<^verbatim>\<open>areParametersCompatible(params1, params2)\<close>, lines 518 to 521. The fields of
  \<^verbatim>\<open>typeInfo2\<close> are read through the selectors, as the source reads them through
  \<^verbatim>\<open>(typeInfo2 as any)\<close> once the kinds are known to be equal. \<^verbatim>\<open>some\<close> is \<open>list_ex\<close> and
  \<^verbatim>\<open>every\<close> is \<open>list_all\<close>; a callback that takes the index runs over the elements
  paired with their positions. A property that the source object lacks reads as
  \<^verbatim>\<open>undefined\<close>, which is \<open>None\<close>. (A value inherited from \<^verbatim>\<open>Object.prototype\<close>, which
  a lookup such as \<^verbatim>\<open>properties["toString"]\<close> returns in its place, has no \<^verbatim>\<open>kind\<close> and
  fails every rule, as \<^verbatim>\<open>undefined\<close> does.)
\<close>

function isAssignableTo :: "TypeInfo option \<Rightarrow> TypeInfo option \<Rightarrow> bool"
  and areParametersCompatible :: "TypeInfo list \<Rightarrow> TypeInfo list \<Rightarrow> bool" where
  "isAssignableTo None typeInfo2 = False"
| "isAssignableTo (Some typeInfo1) None = False"
| "isAssignableTo (Some typeInfo1) (Some typeInfo2) =
     (if kind typeInfo1 = kind typeInfo2 then
        (case kind typeInfo1 of
           KPrimitive \<Rightarrow> prim_type typeInfo1 = prim_type typeInfo2
         | KLiteral \<Rightarrow> strict_eq (literal_value typeInfo1) (literal_value typeInfo2)
         | KUnion \<Rightarrow>
             list_ex (\<lambda>t. list_ex (\<lambda>t1. isAssignableTo (Some t1) (Some t)) (types typeInfo1))
               (types typeInfo2)
         | KIntersection \<Rightarrow>
             list_all (\<lambda>t. list_ex (\<lambda>t1. isAssignableTo (Some t1) (Some t)) (types typeInfo1))
               (types typeInfo2)
         | KArray \<Rightarrow> isAssignableTo (Some (inner typeInfo1)) (Some (inner typeInfo2))
         | KReadonlyArray \<Rightarrow> isAssignableTo (Some (inner typeInfo1)) (Some (inner typeInfo2))
         | KSet \<Rightarrow> isAssignableTo (Some (inner typeInfo1)) (Some (inner typeInfo2))
         | KMap \<Rightarrow>
             isAssignableTo (Some (map_key typeInfo1)) (Some (map_key typeInfo2)) \<and>
             isAssignableTo (Some (map_value typeInfo1)) (Some (map_value typeInfo2))
         | KRecord \<Rightarrow>
             isAssignableTo (Some (map_key typeInfo1)) (Some (map_key typeInfo2)) \<and>
             isAssignableTo (Some (map_value typeInfo1)) (Some (map_value typeInfo2))
         | KPromise \<Rightarrow> isAssignableTo (Some (inner typeInfo1)) (Some (inner typeInfo2))
         | KPromiseLike \<Rightarrow> isAssignableTo (Some (inner typeInfo1)) (Some (inner typeInfo2))
         | KFunction \<Rightarrow>
             isAssignableTo (Some (returnType typeInfo1)) (Some (returnType typeInfo2)) \<and>
             areParametersCompatible (parameters typeInfo1) (parameters typeInfo2)
         | KTuple \<Rightarrow>
             length (elements typeInfo1) = length (elements typeInfo2) \<and>
             list_all
               (\<lambda>(elem, i). isAssignableTo (Some elem) (js_index (elements typeInfo2) (int i)))
               (zip (elements typeInfo1) [0..<length (elements typeInfo1)])
         | KObject \<Rightarrow>
             list_all
               (\<lambda>key. isAssignableTo (map_of (properties typeInfo1) key)
                        (map_of (properties typeInfo2) key))
               (map fst (properties typeInfo2))
         | _ \<Rightarrow> True)
      else if kind typeInfo1 = KOptional then
        isAssignableTo (Some (inner typeInfo1)) (Some typeInfo2)
      else if kind typeInfo1 = KNullable then
        isAssignableTo (Some (inner typeInfo1)) (Some typeInfo2) \<or>
        (kind typeInfo2 = KUnion \<and>
         list_ex (\<lambda>t. kind t = KPrimitive \<and> prim_type t = TNull) (types typeInfo2))
      else if kind typeInfo1 = KArray \<and> kind typeInfo2 = KArray then
        isAssignableTo (Some (inner typeInfo1)) (Some (inner typeInfo2))
      else if kind typeInfo1 = KSet \<and> kind typeInfo2 = KSet then
        isAssignableTo (Some (inner typeInfo1)) (Some (inner typeInfo2))
      else if kind typeInfo1 = KPromise \<and> kind typeInfo2 = KPromise then
        isAssignableTo (Some (inner typeInfo1)) (Some (inner typeInfo2))
      else if kind typeInfo2 = KUnion then
        list_ex (\<lambda>t. isAssignableTo (Some typeInfo1) (Some t)) (types typeInfo2)
      else if kind typeInfo1 = KIntersection then
        list_all (\<lambda>t. isAssignableTo (Some t) (Some typeInfo2)) (types typeInfo1)
      else if kind typeInfo1 = KLiteral \<and> kind typeInfo2 = KPrimitive then
        typeof (literal_value typeInfo1) = tag_name (prim_type typeInfo2)
      else False)"
| "areParametersCompatible params1 params2 =
     (if length params1 \<noteq> length params2 then False
      else list_all (\<lambda>(param, i). isAssignableTo (js_index params2 (int i)) (Some param))
             (zip params1 [0..<length params1]))"
  by pat_completeness auto

termination
  apply (relation "measure call_size")
  apply simp
  apply (simp_all add: call_size_def size_by_kind)
  subgoal for t1 t2 x xa
    using size_member [of x "types t2"] size_member [of xa "types t1"] by simp
  subgoal for t1 t2 x xa
    using size_member [of x "types t2"] size_member [of xa "types t1"] by simp
  subgoal for t1 t2 x xa y
    using size_member [of xa "elements t1"] node_size_js_index [of "elements t2" "int y"]
    by (auto dest: set_zip_leftD)
  subgoal for t1 t2 x
    using node_size_property [of "properties t1" x] node_size_property [of "properties t2" x]
    by simp
  subgoal for t1 t2 x using size_member [of x "types t2"] by simp
  subgoal for t1 t2 x using size_member [of x "types t1"] by simp
  subgoal for ps1 ps2 x xa y
    using size_member [of xa ps1] node_size_js_index [of ps2 "int y"]
    by (auto dest: set_zip_leftD)
  done

section \<open>The tree under a node\<close>

text \<open>
  The nodes directly under a node, field by field in the order of the declaration. The
  invariants of the data model and the depth of a tree are stated over them.
\<close>

fun children :: "TypeInfo \<Rightarrow> TypeInfo list" where
  "children (Simple _) = []"
| "children (Primitive _) = []"
| "children (Array t) = [t]"
| "children (ReadonlyArray t) = [t]"
| "children (Set t) = [t]"
| "children (Promise t) = [t]"
| "children (PromiseLike t) = [t]"
| "children (Observable t) = [t]"
| "children (Map k v) = [k, v]"
| "children (Record k v) = [k, v]"
| "children (UnionT ts) = ts"
| "children (Intersection ts) = ts"
| "children (Optional t) = [t]"
| "children (Nullable t) = [t]"
| "children (Function ps r) = ps @ [r]"
| "children (Class n c ms ps) = c # map snd ms @ map snd ps"
| "children (Interface n ps) = map snd ps"
| "children (Generic n ps) = ps"
| "children (Literal _) = []"
| "children (Enum _ _) = []"
| "children (Tuple es) = es"
| "children (Object ps) = map snd ps"
| "children (IndexSignature k v) = [k, v]"
| "children (Conditional c e t f) = [c, e, t, f]"
| "children (Mapped k v) = [k, v]"
| "children (TemplateLiteral ps ts) = ts"
| "children Unknown = []"

lemma size_entry: "(k, t) \<in> set ps \<Longrightarrow> size t < size_list (size_prod (\<lambda>_. 0) size) ps"
  by (induction ps) auto

lemma child_size: "c \<in> set (children t) \<Longrightarrow> size c < size t"
  by (cases t) (auto dest: size_member size_entry)

text \<open>\<open>all_nodes P t\<close>: \<open>P\<close> holds of \<open>t\<close> and of every node that occurs in \<open>t\<close>.\<close>

function all_nodes :: "(TypeInfo \<Rightarrow> bool) \<Rightarrow> TypeInfo \<Rightarrow> bool" where
  "all_nodes P t = (P t \<and> list_all (all_nodes P) (children t))"
  by pat_completeness auto

termination
  by (relation "measure (\<lambda>(P, t). size t)") (auto simp: child_size)

text \<open>
  The invariant of the data model: the member list of every Union and of every
  Intersection that occurs in the tree is non-empty.
\<close>

definition members_non_empty :: "TypeInfo \<Rightarrow> bool" where
  "members_non_empty t =
     all_nodes (\<lambda>n. kind n \<in> {KUnion, KIntersection} \<longrightarrow> types n \<noteq> []) t"

text \<open>No Literal node of the tree holds the number \<open>NaN\<close>.\<close>

definition no_NaN_literal :: "TypeInfo \<Rightarrow> bool" where
  "no_NaN_literal t = all_nodes (\<lambda>n. n \<noteq> Literal (NumberValue NaN)) t"

section \<open>The depth of a tree\<close>

text \<open>
  The depth of a tree: a node without children has depth 1. An absent node has depth 0.
\<close>

fun max_list :: "nat list \<Rightarrow> nat" where
  "max_list [] = 0"
| "max_list (n # ns) = max n (max_list ns)"

function tree_depth :: "TypeInfo \<Rightarrow> nat" where
  "tree_depth t = Suc (max_list (map tree_depth (children t)))"
  by pat_completeness auto

termination
  by (relation "measure size") (auto simp: child_size)


section \<open>The tree dump\<close>


text \<open>
  What \<^verbatim>\<open>printTypeTree\<close> takes from the host. Its parameter \<^verbatim>\<open>depth\<close> is a JavaScript number,
  of any value; the walk does two things with it, both the host's: \<^verbatim>\<open>"  ".repeat(depth)\<close>,
  which throws a \<^verbatim>\<open>RangeError\<close> when the count is negative or infinite or the text too long,
  and \<^verbatim>\<open>depth + 2\<close>. \<^verbatim>\<open>JSON.stringify\<close> is applied to the value of a Literal node and to the
  \<^verbatim>\<open>values\<close> record of an Enum node. The model is parametric in the type \<open>'d\<close> of the numbers
  and in the three operations.
\<close>

datatype error = RangeError



text \<open>
  An exception leaves the walk at once: what follows a call is evaluated only when the
  call has returned a value. \<^verbatim>\<open>map\<close> calls its callback on the elements from left to right.
\<close>

definition bind_result :: "error + 'a \<Rightarrow> ('a \<Rightarrow> error + 'b) \<Rightarrow> error + 'b" where
  "bind_result r f = (case r of Inl e \<Rightarrow> Inl e | Inr x \<Rightarrow> f x)"

fun map_result :: "('x \<Rightarrow> error + 'a) \<Rightarrow> 'x list \<Rightarrow> error + 'a list" where
  "map_result f [] = Inr []"
| "map_result f (x # xs) =
     bind_result (f x) (\<lambda>y. bind_result (map_result f xs) (\<lambda>ys. Inr (y # ys)))"

lemma map_result_cong [fundef_cong]:
  "xs = ys \<Longrightarrow> (\<And>x. x \<in> set ys \<Longrightarrow> f x = g x) \<Longrightarrow> map_result f xs = map_result g ys"
  by (induction ys arbitrary: xs) auto

















section \<open>The walks under a bound on the call stack\<close>


text \<open>
  \<^verbatim>\<open>printTypeTree\<close> under the bound. A call that does not fit in the stack ends the walk,
  as an exception does.
\<close>

definition bind_limited ::
  "(error + 'a) option \<Rightarrow> ('a \<Rightarrow> (error + 'b) option) \<Rightarrow> (error + 'b) option" where
  "bind_limited r f =
     (case r of None \<Rightarrow> None | Some (Inl e) \<Rightarrow> Some (Inl e) | Some (Inr x) \<Rightarrow> f x)"







text \<open>
  What \<^verbatim>\<open>isAssignableTo\<close> receives as \<^verbatim>\<open>typeInfo1\<close>: \<^verbatim>\<open>undefined\<close>, a node, or a member
  that the source's property record inherits. The lookup \<^verbatim>\<open>typeInfo1.properties[key]\<close> of
  line 465 follows the prototype chain: for a key that the record does not hold itself
  and \<^verbatim>\<open>Object.prototype\<close> defines (\<^verbatim>\<open>toString\<close>, \<^verbatim>\<open>constructor\<close>, ...), it returns that member,
  a function or an object without a field \<^verbatim>\<open>kind\<close>, and the call goes on with it. Which
  names \<^verbatim>\<open>Object.prototype\<close> defines is the host's: the parameter \<open>inherited\<close>.
\<close>

datatype Operand = Absent | Node TypeInfo | Inherited


fun node_of :: "Operand \<Rightarrow> TypeInfo option" where
  "node_of Absent = None"
| "node_of (Node t) = Some t"
| "node_of Inherited = None"



section \<open>Properties of the assignability rules\<close>

lemmas isAssignableTo_unfold = isAssignableTo.simps(3)

declare isAssignableTo.simps(3) [simp del]

declare areParametersCompatible.simps [simp del]

lemma assignable_Some_iff:
  "isAssignableTo a b \<longleftrightarrow> (\<exists>s t. a = Some s \<and> b = Some t \<and> isAssignableTo (Some s) (Some t))"
  by (cases a; cases b) simp_all

lemma assignable_Union_Union:
  "isAssignableTo (Some (UnionT ss)) (Some (UnionT ts)) =
   list_ex (\<lambda>t. list_ex (\<lambda>s. isAssignableTo (Some s) (Some t)) ss) ts"
  by (simp add: isAssignableTo_unfold)

lemma assignable_Object_Object:
  "isAssignableTo (Some (Object ps1)) (Some (Object ps2)) =
   list_all (\<lambda>key. isAssignableTo (map_of ps1 key) (map_of ps2 key)) (map fst ps2)"
  by (simp add: isAssignableTo_unfold)

lemma assignable_Literal_Primitive:
  "isAssignableTo (Some (Literal v)) (Some (Primitive p)) \<longleftrightarrow> typeof v = tag_name p"
  by (simp add: isAssignableTo_unfold)

lemma every_indexed:
  "list_all (\<lambda>(x, i). P x i) (zip xs [0..<length xs]) \<longleftrightarrow> (\<forall>i < length xs. P (xs ! i) i)"
  by (simp add: list_all_length)

lemma areParametersCompatible_iff:
  "areParametersCompatible ps1 ps2 \<longleftrightarrow>
   length ps1 = length ps2 \<and>
   (\<forall>i < length ps1. isAssignableTo (Some (ps2 ! i)) (Some (ps1 ! i)))"
  unfolding areParametersCompatible.simps every_indexed
  by (auto simp: js_index_def)

text \<open>
  C1, as the code has it. Between two Union nodes (both member lists non-empty),
  \<^verbatim>\<open>isAssignableTo(source, target)\<close> is true if and only if \<^emph>\<open>some\<close> member \<open>t\<close> of
  \<^verbatim>\<open>target.types\<close> is matched by some member \<open>s\<close> of \<^verbatim>\<open>source.types\<close> with
  \<^verbatim>\<open>isAssignableTo(s, t)\<close>: line 435 calls \<^verbatim>\<open>some\<close> on the target's members, where the
  Intersection rule of line 439 calls \<^verbatim>\<open>every\<close>.
\<close>

theorem union_union_some_member_matched:
  "ss \<noteq> [] \<Longrightarrow> ts \<noteq> [] \<Longrightarrow>
   isAssignableTo (Some (UnionT ss)) (Some (UnionT ts)) \<longleftrightarrow>
   (\<exists>t \<in> set ts. \<exists>s \<in> set ss. isAssignableTo (Some s) (Some t))"
  by (simp add: assignable_Union_Union list_ex_iff)

theorem union_union_some_member_matched_witness:
  "[Primitive TString] \<noteq> [] \<and> [Primitive TString, Primitive TNumber] \<noteq> [] \<and>
   (isAssignableTo (Some (UnionT [Primitive TString]))
      (Some (UnionT [Primitive TString, Primitive TNumber])) \<longleftrightarrow>
    (\<exists>t \<in> set [Primitive TString, Primitive TNumber]. \<exists>s \<in> set [Primitive TString].
       isAssignableTo (Some s) (Some t)))"
  using union_union_some_member_matched
    [of "[Primitive TString]" "[Primitive TString, Primitive TNumber]"]
  by simp

text \<open>
  C1 as the specification states it (every member of the target matched by some member
  of the source) fails: the union of \<^verbatim>\<open>string\<close> alone is assignable to the union of
  \<^verbatim>\<open>string\<close> and \<^verbatim>\<open>number\<close>, although the target's member \<^verbatim>\<open>number\<close> is matched by no
  member of the source, whose only member is \<^verbatim>\<open>string\<close>.
\<close>

theorem union_union_target_member_unmatched:
  "isAssignableTo (Some (UnionT [Primitive TString]))
     (Some (UnionT [Primitive TString, Primitive TNumber])) \<and>
   \<not> isAssignableTo (Some (Primitive TString)) (Some (Primitive TNumber))"
  by (simp add: isAssignableTo_unfold)

text \<open>
  C2, as the code has it. Two Class nodes, and likewise two Interface nodes, are always
  assignable: \<^verbatim>\<open>Class\<close> and \<^verbatim>\<open>Interface\<close> have no \<^verbatim>\<open>case\<close> in the same-kind switch and
  take its \<^verbatim>\<open>default: return true\<close>, whatever their property maps hold. The structural
  property rule is the rule of \<^verbatim>\<open>Object\<close> alone.
\<close>

theorem class_interface_default_true:
  "isAssignableTo (Some (Class n1 c1 ms1 ps1)) (Some (Class n2 c2 ms2 ps2)) \<and>
   isAssignableTo (Some (Interface m1 qs1)) (Some (Interface m2 qs2))"
  by (simp add: isAssignableTo_unfold)

theorem class_interface_default_true_witness:
  "isAssignableTo (Some (Class ''A'' Unknown [] [(''x'', Primitive TString)]))
     (Some (Class ''B'' (Function [] Unknown) [] [(''x'', Primitive TNumber)])) \<and>
   isAssignableTo (Some (Interface ''I'' [(''x'', Primitive TString)]))
     (Some (Interface ''J'' [(''x'', Primitive TNumber)]))"
  using class_interface_default_true
    [of "''A''" Unknown "[]" "[(''x'', Primitive TString)]"
        "''B''" "Function [] Unknown" "[]" "[(''x'', Primitive TNumber)]"
        "''I''" "[(''x'', Primitive TString)]" "''J''" "[(''x'', Primitive TNumber)]"]
  by simp

text \<open>
  C2 as the specification states it fails: a class without properties is assignable to a
  class whose property map has the key \<^verbatim>\<open>id\<close>, and so is an interface without properties
  to an interface with that key, although the source has no property \<^verbatim>\<open>id\<close>.
\<close>

theorem class_missing_property_still_assignable:
  "isAssignableTo (Some (Class ''A'' Unknown [] []))
     (Some (Class ''B'' Unknown [] [(''id'', Primitive TNumber)])) \<and>
   isAssignableTo (Some (Interface ''A'' []))
     (Some (Interface ''B'' [(''id'', Primitive TNumber)])) \<and>
   map_of ([] :: (string \<times> TypeInfo) list) ''id'' = None"
  by (simp add: isAssignableTo_unfold)

text \<open>
  C3. Between two Object nodes, \<^verbatim>\<open>isAssignableTo(source, target)\<close> is true if and only if
  for every property key of the target the source has that key and the source's property
  is assignable to the target's. A key that the source lacks makes the result false, and
  two sources that agree on the target's keys give the same result, whatever else they
  hold.
\<close>

theorem object_width_subtyping:
  "(isAssignableTo (Some (Object src)) (Some (Object tgt)) \<longleftrightarrow>
      (\<forall>key \<in> dom (map_of tgt). \<exists>s t. map_of src key = Some s \<and> map_of tgt key = Some t \<and>
          isAssignableTo (Some s) (Some t))) \<and>
   (key \<in> dom (map_of tgt) \<and> map_of src key = None \<longrightarrow>
      \<not> isAssignableTo (Some (Object src)) (Some (Object tgt))) \<and>
   ((\<forall>key \<in> dom (map_of tgt). map_of src' key = map_of src key) \<longrightarrow>
      isAssignableTo (Some (Object src')) (Some (Object tgt)) =
      isAssignableTo (Some (Object src)) (Some (Object tgt)))"
proof -
  have rule: "isAssignableTo (Some (Object ps)) (Some (Object tgt)) \<longleftrightarrow>
      (\<forall>key \<in> dom (map_of tgt). \<exists>s t. map_of ps key = Some s \<and> map_of tgt key = Some t \<and>
          isAssignableTo (Some s) (Some t))" for ps
    unfolding assignable_Object_Object list_all_iff dom_map_of_conv_image_fst set_map
    by (subst assignable_Some_iff) (rule refl)
  have missing: "\<not> isAssignableTo (Some (Object src)) (Some (Object tgt))"
    if "key \<in> dom (map_of tgt)" "map_of src key = None"
    using that unfolding rule by force
  have extra: "isAssignableTo (Some (Object src')) (Some (Object tgt)) =
      isAssignableTo (Some (Object src)) (Some (Object tgt))"
    if "\<forall>key \<in> dom (map_of tgt). map_of src' key = map_of src key"
    using that unfolding rule by simp
  show ?thesis using rule [of src] missing extra by blast
qed

theorem object_width_subtyping_witness:
  "isAssignableTo (Some (Object [(''id'', Primitive TNumber), (''name'', Primitive TString)]))
     (Some (Object [(''id'', Primitive TNumber)])) \<and>
   ''id'' \<in> dom (map_of [(''id'', Primitive TNumber)]) \<and>
   map_of [(''name'', Primitive TString)] ''id'' = None \<and>
   \<not> isAssignableTo (Some (Object [(''name'', Primitive TString)]))
     (Some (Object [(''id'', Primitive TNumber)])) \<and>
   isAssignableTo (Some (Object [(''id'', Primitive TNumber), (''name'', Primitive TString)]))
     (Some (Object [(''id'', Primitive TNumber)])) =
   isAssignableTo (Some (Object [(''id'', Primitive TNumber)]))
     (Some (Object [(''id'', Primitive TNumber)]))"
  using
    object_width_subtyping
      [of "[(''id'', Primitive TNumber), (''name'', Primitive TString)]"
          "[(''id'', Primitive TNumber)]" "''id''" "[(''id'', Primitive TNumber)]"]
    object_width_subtyping
      [of "[(''name'', Primitive TString)]" "[(''id'', Primitive TNumber)]" "''id''"
          "[(''name'', Primitive TString)]"]
  by (simp add: isAssignableTo_unfold)

text \<open>
  C4. Between two Function nodes, \<^verbatim>\<open>isAssignableTo(source, target)\<close> is true if and only
  if the source's return type is assignable to the target's, the parameter lists have the
  same length, and at every position the target's parameter is assignable to the source's.
  Lists of different lengths make it false.
\<close>

theorem function_return_covariant_parameters_contravariant:
  "(isAssignableTo (Some (Function sps sr)) (Some (Function tps tr)) \<longleftrightarrow>
      isAssignableTo (Some sr) (Some tr) \<and> length sps = length tps \<and>
      (\<forall>i < length sps. isAssignableTo (Some (tps ! i)) (Some (sps ! i)))) \<and>
   (length sps \<noteq> length tps \<longrightarrow>
      \<not> isAssignableTo (Some (Function sps sr)) (Some (Function tps tr)))"
  by (simp add: isAssignableTo_unfold areParametersCompatible_iff)

theorem function_return_covariant_parameters_contravariant_witness:
  "isAssignableTo (Some (Function [Primitive TString] (Literal (StringValue ''a''))))
     (Some (Function [Literal (StringValue ''b'')] (Primitive TString))) \<and>
   length [Primitive TString, Primitive TString] \<noteq> length [Primitive TString] \<and>
   \<not> isAssignableTo (Some (Function [Primitive TString, Primitive TString] (Primitive TString)))
     (Some (Function [Primitive TString] (Primitive TString)))"
  using
    function_return_covariant_parameters_contravariant
      [of "[Primitive TString]" "Literal (StringValue ''a'')"
          "[Literal (StringValue ''b'')]" "Primitive TString"]
    function_return_covariant_parameters_contravariant
      [of "[Primitive TString, Primitive TString]" "Primitive TString"
          "[Primitive TString]" "Primitive TString"]
  by (simp add: isAssignableTo_unfold)

text \<open>
  C5. A Literal node is assignable to a Primitive node if and only if \<^verbatim>\<open>typeof\<close> of the
  literal's value is the primitive's tag. Every string literal is assignable to the
  primitive \<^verbatim>\<open>string\<close> and no number literal is; so for \<^verbatim>\<open>"hello"\<close> and \<^verbatim>\<open>42\<close>.
\<close>

theorem literal_to_primitive_by_typeof:
  "(isAssignableTo (Some (Literal v)) (Some (Primitive p)) \<longleftrightarrow> typeof v = tag_name p) \<and>
   isAssignableTo (Some (Literal (StringValue s))) (Some (Primitive TString)) \<and>
   \<not> isAssignableTo (Some (Literal (NumberValue n))) (Some (Primitive TString)) \<and>
   isAssignableTo (Some (Literal (StringValue ''hello''))) (Some (Primitive TString)) \<and>
   \<not> isAssignableTo (Some (Literal (NumberValue (Finite 42)))) (Some (Primitive TString))"
  by (simp add: assignable_Literal_Primitive)

theorem literal_to_primitive_by_typeof_witness:
  "isAssignableTo (Some (Literal (BooleanValue True))) (Some (Primitive TBoolean)) \<and>
   \<not> isAssignableTo (Some (Literal (BooleanValue True))) (Some (Primitive TNumber))"
  using
    literal_to_primitive_by_typeof [of "BooleanValue True" TBoolean "[]" NaN]
    literal_to_primitive_by_typeof [of "BooleanValue True" TNumber "[]" NaN]
  by simp

section \<open>Properties of deep resolution\<close>

lemma find_first:
  "\<forall>u \<in> set us. \<not> P u \<Longrightarrow> P m \<Longrightarrow> find P (us @ m # vs) = Some m"
  by (induction us) auto

lemma terminal_fixed: "terminal r \<Longrightarrow> resolveDeepestType (Some r) = Some r"
  by (cases r) (simp_all add: terminal_def)

lemma resolve_terminal: "resolveDeepestType a = Some r \<Longrightarrow> terminal r"
proof (induction a rule: resolveDeepestType.induct)
  case (12 ts)
  show ?case
  proof (cases "find (\<lambda>t. kind t \<noteq> KUnknown) ts")
    case None
    with "12.prems" have r: "js_index ts 0 = Some r" by simp
    then have "r \<in> set ts" by (auto simp: js_index_def split: if_splits)
    with None have "kind r = KUnknown" by (auto simp: find_None_iff)
    then show ?thesis by (simp add: terminal_def)
  next
    case (Some m)
    with "12.prems" "12.IH" show ?thesis by simp
  qed
qed (auto simp: terminal_def)

text \<open>
  C6. On a Union node, \<^verbatim>\<open>resolveDeepestType\<close> returns the deep resolution of the first
  member whose kind is not \<^verbatim>\<open>unknown\<close> (the members before it all being \<^verbatim>\<open>unknown\<close>); when
  the list is not empty and every member is \<^verbatim>\<open>unknown\<close>, it returns the first member
  itself. On the union of an unknown node and the primitive \<^verbatim>\<open>number\<close> it returns the
  primitive.
\<close>

theorem resolve_union_first_non_unknown:
  "((\<forall>u \<in> set us. kind u = KUnknown) \<and> kind m \<noteq> KUnknown \<longrightarrow>
      resolveDeepestType (Some (UnionT (us @ m # vs))) = resolveDeepestType (Some m)) \<and>
   (ts \<noteq> [] \<and> (\<forall>t \<in> set ts. kind t = KUnknown) \<longrightarrow>
      resolveDeepestType (Some (UnionT ts)) = Some (hd ts)) \<and>
   resolveDeepestType (Some (UnionT [Unknown, Primitive TNumber])) = Some (Primitive TNumber)"
proof (intro conjI impI)
  assume "(\<forall>u \<in> set us. kind u = KUnknown) \<and> kind m \<noteq> KUnknown"
  then have "find (\<lambda>t. kind t \<noteq> KUnknown) (us @ m # vs) = Some m"
    by (intro find_first) auto
  then show "resolveDeepestType (Some (UnionT (us @ m # vs))) = resolveDeepestType (Some m)"
    by simp
next
  assume a: "ts \<noteq> [] \<and> (\<forall>t \<in> set ts. kind t = KUnknown)"
  then have "find (\<lambda>t. kind t \<noteq> KUnknown) ts = None"
    by (simp add: find_None_iff)
  moreover from a have "js_index ts 0 = Some (hd ts)"
    by (cases ts) (simp_all add: js_index_def)
  ultimately show "resolveDeepestType (Some (UnionT ts)) = Some (hd ts)"
    by simp
next
  show "resolveDeepestType (Some (UnionT [Unknown, Primitive TNumber])) = Some (Primitive TNumber)"
    by simp
qed

theorem resolve_union_first_non_unknown_witness:
  "list_all (\<lambda>u. kind u = KUnknown) [Unknown, Unknown] \<and>
   kind (Array (Primitive TString)) \<noteq> KUnknown \<and>
   resolveDeepestType
     (Some (UnionT ([Unknown, Unknown] @ Array (Primitive TString) # [Primitive TNumber]))) =
   Some (Primitive TString) \<and>
   [Unknown, Unknown] \<noteq> [] \<and>
   resolveDeepestType (Some (UnionT [Unknown, Unknown])) = Some Unknown"
  using resolve_union_first_non_unknown
    [of "[Unknown, Unknown]" "Array (Primitive TString)" "[Primitive TNumber]"
        "[Unknown, Unknown]"]
  by simp

text \<open>
  C7, as the code has it. On a Generic node without type parameters and on a Tuple node
  without elements, \<^verbatim>\<open>resolveDeepestType\<close> returns \<^verbatim>\<open>undefined\<close>: the index \<open>0\<close> of the
  empty array is \<^verbatim>\<open>undefined\<close>, and the recursive call leaves at \<^verbatim>\<open>if (!typeInfo) return\<close>.
\<close>

theorem resolve_empty_generic_tuple_absent:
  "resolveDeepestType (Some (Generic n [])) = None \<and>
   resolveDeepestType (Some (Tuple [])) = None"
  by (simp add: js_index_def)

theorem resolve_empty_generic_tuple_absent_witness:
  "resolveDeepestType (Some (Generic ''Box'' [])) = None \<and>
   resolveDeepestType (Some (Promise (Tuple []))) = None"
  using resolve_empty_generic_tuple_absent [of "''Box''"]
  by simp

text \<open>
  C7 as the specification states it fails: the result on the empty Generic and on the
  empty Tuple is not an \<^verbatim>\<open>unknown\<close> node.
\<close>

theorem resolve_empty_generic_tuple_not_unknown:
  "resolveDeepestType (Some (Generic ''T'' [])) \<noteq> Some Unknown \<and>
   resolveDeepestType (Some (Tuple [])) \<noteq> Some Unknown"
  by (simp add: js_index_def)

text \<open>
  C10. \<^verbatim>\<open>resolveDeepestType\<close> is idempotent, on every node and on \<^verbatim>\<open>undefined\<close>; and
  whenever it returns a node, the node has one of the terminal kinds (Simple, Primitive,
  Literal, Enum, IndexSignature, Class, Interface, Object, unknown), which it returns
  unchanged.
\<close>

theorem resolve_idempotent:
  "resolveDeepestType (resolveDeepestType a) = resolveDeepestType a \<and>
   (resolveDeepestType a = Some r \<longrightarrow> terminal r) \<and>
   (terminal t \<longrightarrow> resolveDeepestType (Some t) = Some t)"
proof -
  have "resolveDeepestType (resolveDeepestType a) = resolveDeepestType a"
  proof (cases "resolveDeepestType a")
    case None
    then show ?thesis by simp
  next
    case (Some r)
    then show ?thesis using resolve_terminal [of a r] terminal_fixed [of r] by simp
  qed
  then show ?thesis using resolve_terminal [of a r] terminal_fixed [of t] by blast
qed

theorem resolve_idempotent_witness:
  "resolveDeepestType (Some (Promise (Array (Literal (StringValue ''a''))))) =
     Some (Literal (StringValue ''a'')) \<and>
   terminal (Literal (StringValue ''a'')) \<and>
   resolveDeepestType (Some (Literal (StringValue ''a''))) = Some (Literal (StringValue ''a'')) \<and>
   resolveDeepestType (resolveDeepestType None) = resolveDeepestType None"
  using
    resolve_idempotent [of "Some (Promise (Array (Literal (StringValue ''a''))))"
      "Literal (StringValue ''a'')" "Literal (StringValue ''a'')"]
    resolve_idempotent [of None Unknown Unknown]
  by simp

section \<open>Reflexivity\<close>

declare all_nodes.simps [simp del]

lemma all_nodes_here: "all_nodes P t \<Longrightarrow> P t"
  by (subst (asm) all_nodes.simps) simp

lemma all_nodes_child: "all_nodes P t \<Longrightarrow> c \<in> set (children t) \<Longrightarrow> all_nodes P c"
  by (subst (asm) all_nodes.simps) (simp add: list_all_iff)

lemma assignable_Intersection_Intersection:
  "isAssignableTo (Some (Intersection ss)) (Some (Intersection ts)) =
   list_all (\<lambda>t. list_ex (\<lambda>s. isAssignableTo (Some s) (Some t)) ss) ts"
  by (simp add: isAssignableTo_unfold)

lemma assignable_Function_Function:
  "isAssignableTo (Some (Function sps sr)) (Some (Function tps tr)) \<longleftrightarrow>
   isAssignableTo (Some sr) (Some tr) \<and> areParametersCompatible sps tps"
  by (simp add: isAssignableTo_unfold)

lemma assignable_Literal_Literal:
  "isAssignableTo (Some (Literal v)) (Some (Literal w)) = strict_eq v w"
  by (simp add: isAssignableTo_unfold)

lemma reflexive_Object:
  assumes "\<And>c. c \<in> snd ` set ps \<Longrightarrow> isAssignableTo (Some c) (Some c)"
  shows "isAssignableTo (Some (Object ps)) (Some (Object ps))"
  unfolding assignable_Object_Object list_all_iff
proof
  fix key assume "key \<in> set (map fst ps)"
  then obtain v where "map_of ps key = Some v"
    by (metis domD dom_map_of_conv_image_fst set_map)
  moreover from this have "v \<in> snd ` set ps"
    by (metis image_eqI map_of_SomeD snd_conv)
  ultimately show "isAssignableTo (map_of ps key) (map_of ps key)"
    using assms by simp
qed

lemma reflexive_parameters:
  assumes "\<And>c. c \<in> set ps \<Longrightarrow> isAssignableTo (Some c) (Some c)"
  shows "areParametersCompatible ps ps"
  using assms by (simp add: areParametersCompatible_iff)

lemma reflexive_Tuple:
  assumes "\<And>c. c \<in> set es \<Longrightarrow> isAssignableTo (Some c) (Some c)"
  shows "isAssignableTo (Some (Tuple es)) (Some (Tuple es))"
  using assms by (simp add: isAssignableTo_unfold every_indexed js_index_def)

text \<open>
  C9, as the code has it. \<^verbatim>\<open>isAssignableTo(t, t)\<close> is true for every node \<open>t\<close> in which
  the member lists of all Union and Intersection nodes are non-empty and in which no
  Literal node holds \<open>NaN\<close>.
\<close>

theorem isAssignableTo_reflexive:
  "members_non_empty t \<Longrightarrow> no_NaN_literal t \<Longrightarrow> isAssignableTo (Some t) (Some t)"
proof (induction t rule: measure_induct_rule [where f = size])
  case (less t)
  have IH: "isAssignableTo (Some c) (Some c)" if "c \<in> set (children t)" for c
  proof (rule less.IH)
    show "size c < size t" using that by (rule child_size)
    show "members_non_empty c"
      using less.prems(1) that unfolding members_non_empty_def by (rule all_nodes_child)
    show "no_NaN_literal c"
      using less.prems(2) that unfolding no_NaN_literal_def by (rule all_nodes_child)
  qed
  have non_empty: "kind t \<in> {KUnion, KIntersection} \<longrightarrow> types t \<noteq> []"
    using less.prems(1) unfolding members_non_empty_def by (rule all_nodes_here)
  have no_NaN: "t \<noteq> Literal (NumberValue NaN)"
    using less.prems(2) unfolding no_NaN_literal_def by (rule all_nodes_here)
  show ?case
  proof (cases t)
    case (UnionT ts)
    with non_empty obtain x where "x \<in> set ts" by (cases ts) auto
    with IH UnionT show ?thesis
      unfolding UnionT assignable_Union_Union list_ex_iff by auto
  next
    case (Intersection ts)
    with IH show ?thesis
      unfolding Intersection assignable_Intersection_Intersection list_ex_iff list_all_iff
      by auto
  next
    case (Function ps r)
    with IH show ?thesis
      by (simp add: assignable_Function_Function reflexive_parameters)
  next
    case (Literal v)
    with no_NaN show ?thesis
      by (simp add: assignable_Literal_Literal strict_eq_def)
  next
    case (Tuple es)
    with IH show ?thesis by (simp add: reflexive_Tuple)
  next
    case (Object ps)
    with IH show ?thesis by (simp add: reflexive_Object)
  qed (use IH in \<open>(subst isAssignableTo_unfold, simp)+\<close>)
qed

theorem isAssignableTo_reflexive_witness:
  "members_non_empty
     (UnionT [Literal (NumberValue (Finite 1)), Object [(''a'', Intersection [Unknown])]]) \<and>
   no_NaN_literal
     (UnionT [Literal (NumberValue (Finite 1)), Object [(''a'', Intersection [Unknown])]]) \<and>
   isAssignableTo
     (Some (UnionT [Literal (NumberValue (Finite 1)), Object [(''a'', Intersection [Unknown])]]))
     (Some (UnionT [Literal (NumberValue (Finite 1)), Object [(''a'', Intersection [Unknown])]]))"
  using isAssignableTo_reflexive
    [of "UnionT [Literal (NumberValue (Finite 1)), Object [(''a'', Intersection [Unknown])]]"]
  by (simp add: members_non_empty_def no_NaN_literal_def all_nodes.simps)

text \<open>
  C9 as it is stated, with the invariant on member lists alone, fails: the Literal node
  whose value is \<open>NaN\<close> has no Union and no Intersection in it, and is not assignable to
  itself, since line 433 compares the two values with \<^verbatim>\<open>===\<close>.
\<close>

theorem NaN_literal_not_reflexive:
  "members_non_empty (Literal (NumberValue NaN)) \<and>
   \<not> isAssignableTo (Some (Literal (NumberValue NaN))) (Some (Literal (NumberValue NaN)))"
  by (simp add: members_non_empty_def all_nodes.simps assignable_Literal_Literal strict_eq_def)

section \<open>Termination and the depth of the recursion\<close>

declare tree_depth.simps [simp del]

lemma max_list_ge: "x \<in> set ns \<Longrightarrow> x \<le> max_list ns"
  by (induction ns) auto


lemma tree_depth_child: "c \<in> set (children t) \<Longrightarrow> tree_depth c < tree_depth t"
  using max_list_ge [of "tree_depth c" "map tree_depth (children t)"] tree_depth.simps [of t]
  by simp






lemma bind_limited_Some:
  "bind_limited (Some r) f = (case r of Inl e \<Rightarrow> Some (Inl e) | Inr x \<Rightarrow> f x)"
  by (simp add: bind_limited_def)

























end
